theory Spec2Isabelle
  imports Complex_Main
begin

section \<open>Values of the host language\<close>

text \<open>
  The program is TypeScript on Node.js. Its numbers are IEEE doubles; the model keeps the
  finite ones as exact rationals beside the three non-finite values. Rounding of integers
  beyond 2^53 and the sign of zero are not represented.
\<close>

datatype jsnum = NaN | NegInf | Fin rat | PosInf

datatype jsdate = InvalidDate | Date int

datatype json =
    JNull
  | JBool bool
  | JNum jsnum
  | JStr string
  | JDate jsdate
  | JArr "json list"
  | JObj "(string \<times> json) list"

datatype exn = RedisError | SyntaxError | TypeError | CastError | ValidationError | MongoServerError

abbreviation backslash :: char where
  "backslash \<equiv> CHR 0x5C"








text \<open>Truthiness of a value, as \<^verbatim>\<open>if (v)\<close> tests it.\<close>

definition truthy :: "json \<Rightarrow> bool" where
  "truthy v =
     (case v of
        JNull \<Rightarrow> False
      | JBool b \<Rightarrow> b
      | JNum n \<Rightarrow> n \<noteq> NaN \<and> n \<noteq> Fin 0
      | JStr s \<Rightarrow> s \<noteq> []
      | _ \<Rightarrow> True)"


subsection \<open>parseInt\<close>

text \<open>
  \<^verbatim>\<open>parseInt(s)\<close> with no radix: leading white space is skipped, a sign is read, a
  prefix 0x or 0X selects radix 16, and the longest run of digits is the value; no digit
  at all gives NaN. Characters are the 8-bit ones of \<^typ>\<open>string\<close>.
\<close>

definition StrWhiteSpaceChar :: "char \<Rightarrow> bool" where
  "StrWhiteSpaceChar c = ((of_char c :: nat) \<in> {9, 10, 11, 12, 13, 32, 160})"

definition digit_of :: "nat \<Rightarrow> char \<Rightarrow> nat option" where
  "digit_of R c =
     (let n = (of_char c :: nat);
          d = (if 48 \<le> n \<and> n \<le> 57 then Some (n - 48)
               else if 97 \<le> n \<and> n \<le> 122 then Some (n - 87)
               else if 65 \<le> n \<and> n \<le> 90 then Some (n - 55)
               else None)
      in case d of None \<Rightarrow> None | Some k \<Rightarrow> if k < R then Some k else None)"

definition digits_value :: "nat \<Rightarrow> string \<Rightarrow> nat" where
  "digits_value R ds = foldl (\<lambda>acc c. R * acc + (case digit_of R c of Some k \<Rightarrow> k | None \<Rightarrow> 0)) 0 ds"

definition parseInt :: "string \<Rightarrow> jsnum" where
  "parseInt s =
     (let t = dropWhile StrWhiteSpaceChar s;
          negative = (t \<noteq> [] \<and> hd t = CHR ''-'');
          u = (if t \<noteq> [] \<and> (hd t = CHR ''+'' \<or> hd t = CHR ''-'') then tl t else t);
          hex = (take 2 u = ''0x'' \<or> take 2 u = ''0X'');
          R = (if hex then 16 else 10);
          v = (if hex then drop 2 u else u);
          Z = takeWhile (\<lambda>c. digit_of R c \<noteq> None) v
      in if Z = [] then NaN
         else Fin (of_int ((if negative then - 1 else 1) * int (digits_value R Z))))"

subsection \<open>String.prototype.split with a one-character separator\<close>

fun split :: "char \<Rightarrow> string \<Rightarrow> string list" where
  "split sep [] = [[]]"
| "split sep (c # cs) =
     (if c = sep then [] # split sep cs
      else (case split sep cs of [] \<Rightarrow> [[c]] | w # ws \<Rightarrow> (c # w) # ws))"

subsection \<open>JSON.stringify of a query object\<close>

text \<open>
  \<^verbatim>\<open>req.query\<close> is an object whose values are strings (the interface
  \<^verbatim>\<open>SearchQuery\<close>). It is modelled as the list of its own properties in property
  order, which for names that are not array indices is the order in which the request
  supplied them. \<^verbatim>\<open>JSON.stringify\<close> writes the properties in that order, each name
  and value quoted by QuoteJSONString.
\<close>

type_synonym query = "(string \<times> string) list"







section \<open>Cache keys\<close>

text \<open>The table \<^verbatim>\<open>CACHE_KEYS\<close> of the property and favourite controllers.\<close>

definition CACHE_KEYS_PROPERTY :: "string \<Rightarrow> string" where
  "CACHE_KEYS_PROPERTY ident = ''property:'' @ ident"

definition CACHE_KEYS_PROPERTIES :: string where
  "CACHE_KEYS_PROPERTIES = ''properties:all''"

definition CACHE_KEYS_SEARCH :: "string \<Rightarrow> string" where
  "CACHE_KEYS_SEARCH query = ''search:'' @ query"

definition CACHE_KEYS_FILTERS :: string where
  "CACHE_KEYS_FILTERS = ''filters:all''"

definition CACHE_KEYS_USER_FAVORITES :: "string \<Rightarrow> string" where
  "CACHE_KEYS_USER_FAVORITES userId = ''user:'' @ userId @ '':favorites''"

section \<open>The key-value store behind the cache\<close>

text \<open>
  The Redis client is a collaborator. Its database is a list of entries (key, stored
  string, expiry in seconds), one per key. Every command is a network round trip that can
  fail; \<open>faults\<close> lists, for the commands still to come, whether each one fails (an
  empty list: none fails). A failing command raises and changes nothing.
\<close>

record redis =
  entries :: "(string \<times> string \<times> nat) list"
  faults :: "bool list"

type_synonym ('a, 's) io = "'s \<Rightarrow> (exn + 'a) \<times> 's"

definition ret :: "'a \<Rightarrow> ('a, 's) io" where
  "ret v = (\<lambda>s. (Inr v, s))"

definition throw :: "exn \<Rightarrow> ('a, 's) io" where
  "throw e = (\<lambda>s. (Inl e, s))"

definition await :: "('a, 's) io \<Rightarrow> ('a \<Rightarrow> ('b, 's) io) \<Rightarrow> ('b, 's) io" where
  "await m f = (\<lambda>s. case m s of (Inl e, s') \<Rightarrow> (Inl e, s') | (Inr v, s') \<Rightarrow> f v s')"

definition try_catch :: "('a, 's) io \<Rightarrow> (exn \<Rightarrow> ('a, 's) io) \<Rightarrow> ('a, 's) io" where
  "try_catch body handler = (\<lambda>s. case body s of (Inl e, s') \<Rightarrow> handler e s' | (Inr v, s') \<Rightarrow> (Inr v, s'))"

definition evaluate :: "exn + 'a \<Rightarrow> ('a, 's) io" where
  "evaluate x = (case x of Inl e \<Rightarrow> throw e | Inr v \<Rightarrow> ret v)"

subsection \<open>Glob patterns of the KEYS command\<close>

text \<open>
  KEYS matches glob-style: \<^verbatim>\<open>*\<close> any run of characters, \<^verbatim>\<open>?\<close> one character,
  \<^verbatim>\<open>[...]\<close> a set of characters (with ranges and \<^verbatim>\<open>^\<close> for the complement), and a
  backslash takes the next character literally.
\<close>

fun bracket_len :: "string \<Rightarrow> nat" where
  "bracket_len [] = 0"
| "bracket_len (p # ps) =
     (if p = backslash \<and> ps \<noteq> [] then 2 + bracket_len (tl ps)
      else if p = CHR '']'' then 1
      else if 2 \<le> length ps \<and> hd ps = CHR ''-'' then 3 + bracket_len (drop 2 ps)
      else 1 + bracket_len ps)"

fun bracket_hit :: "string \<Rightarrow> char \<Rightarrow> bool" where
  "bracket_hit [] c = False"
| "bracket_hit (p # ps) c =
     (if p = backslash \<and> ps \<noteq> [] then hd ps = c \<or> bracket_hit (tl ps) c
      else if p = CHR '']'' then False
      else if 2 \<le> length ps \<and> hd ps = CHR ''-'' then
        (let a = (of_char p :: nat); b = (of_char (ps ! 1) :: nat); n = (of_char c :: nat)
         in (min a b \<le> n \<and> n \<le> max a b) \<or> bracket_hit (drop 2 ps) c)
      else p = c \<or> bracket_hit ps c)"

function glob_match :: "string \<Rightarrow> string \<Rightarrow> bool" where
  "glob_match [] s = (s = [])"
| "glob_match (p # ps) [] = (p = CHR ''*'' \<and> glob_match ps [])"
| "glob_match (p # ps) (c # cs) =
     (if p = CHR ''*'' then glob_match ps (c # cs) \<or> glob_match (p # ps) cs
      else if p = CHR ''?'' then glob_match ps cs
      else if p = CHR ''['' then
        (if ps \<noteq> [] \<and> hd ps = CHR ''^''
         then \<not> bracket_hit (tl ps) c \<and> glob_match (drop (bracket_len (tl ps)) (tl ps)) cs
         else bracket_hit ps c \<and> glob_match (drop (bracket_len ps) ps) cs)
      else if p = backslash \<and> ps \<noteq> [] then hd ps = c \<and> glob_match (tl ps) cs
      else p = c \<and> glob_match ps cs)"
  by pat_completeness auto
termination
  by (relation "measure (\<lambda>(p, s). length p + length s)") auto

subsection \<open>Commands\<close>

text \<open>
  A command first crosses the network (and fails there if the head of \<open>faults\<close> says
  so), then runs on the server, which may itself answer with an error.
\<close>

definition command :: "(redis \<Rightarrow> (exn + 'a) \<times> redis) \<Rightarrow> ('a, redis) io" where
  "command run r =
     (case faults r of
        [] \<Rightarrow> run r
      | failing # rest \<Rightarrow>
          if failing then (Inl RedisError, r\<lparr>faults := rest\<rparr>)
          else run (r\<lparr>faults := rest\<rparr>))"

definition redis_get :: "string \<Rightarrow> (string option, redis) io" where
  "redis_get key = command (\<lambda>r. (Inr (map_option fst (map_of (entries r) key)), r))"

text \<open>\<^verbatim>\<open>SET key value EX ttl\<close>: the server refuses an expiry that is not positive.\<close>

definition redis_set :: "string \<Rightarrow> string \<Rightarrow> nat \<Rightarrow> (unit, redis) io" where
  "redis_set key stringValue ttl =
     command (\<lambda>r.
       if ttl = 0 then (Inl RedisError, r)
       else (Inr (), r\<lparr>entries := (key, stringValue, ttl) # filter (\<lambda>e. fst e \<noteq> key) (entries r)\<rparr>))"

definition redis_del :: "string list \<Rightarrow> (nat, redis) io" where
  "redis_del ks =
     command (\<lambda>r. (Inr (length (filter (\<lambda>e. fst e \<in> set ks) (entries r))),
                   r\<lparr>entries := filter (\<lambda>e. fst e \<notin> set ks) (entries r)\<rparr>))"

definition redis_keys :: "string \<Rightarrow> (string list, redis) io" where
  "redis_keys pattern = command (\<lambda>r. (Inr (filter (glob_match pattern) (map fst (entries r))), r))"

text \<open>\<open>succeeding n r\<close>: none of the next \<open>n\<close> commands fails.\<close>

definition succeeding :: "nat \<Rightarrow> redis \<Rightarrow> bool" where
  "succeeding n r = list_all (\<lambda>failing. \<not> failing) (take n (faults r))"

section \<open>Functions of the runtime and of the object-document mapper\<close>

text \<open>
  The built-in functions and the Mongoose operations whose results no property below
  depends on are parameters of the model: parsing and printing of cached payloads (each
  may raise), \<^verbatim>\<open>parseFloat\<close>, \<^verbatim>\<open>new Date(string)\<close>, the casting of a request body
  to a document of the Property schema on create and on update (each may reject the
  body), and the ordering of a result by a field name and a direction.
\<close>

record property =
  propertyId :: string
  title :: string
  type :: string
  price :: rat
  state :: string
  city :: string
  areaSqFt :: rat
  bedrooms :: rat
  bathrooms :: rat
  amenities :: "string list"
  furnished :: string
  availableFrom :: int
  listedBy :: string
  tags :: "string list"
  colorTheme :: string
  rating :: rat
  isVerified :: bool
  listingType :: string
  createdBy :: "string option"

record host =
  JSON_parse :: "string \<Rightarrow> exn + json"
  JSON_stringify :: "json \<Rightarrow> exn + string"
  parseFloat :: "string \<Rightarrow> jsnum"
  new_Date :: "string \<Rightarrow> jsdate"
  cast_document :: "(string \<times> json) list \<Rightarrow> exn + property"
  cast_update :: "(string \<times> json) list \<Rightarrow> property \<Rightarrow> exn + property"
  sort_documents :: "string \<times> int \<Rightarrow> property list \<Rightarrow> property list"

section \<open>CacheService\<close>

definition CACHE_TTL :: nat where
  "CACHE_TTL = 3600"

definition CacheService_get :: "host \<Rightarrow> string \<Rightarrow> (json, redis) io" where
  "CacheService_get h key =
     try_catch
       (await (redis_get key) (\<lambda>data.
          case data of
            None \<Rightarrow> ret JNull
          | Some d \<Rightarrow> if d \<noteq> [] then evaluate (JSON_parse h d) else ret JNull))
       (\<lambda>error. ret JNull)"

definition CacheService_set :: "host \<Rightarrow> string \<Rightarrow> json \<Rightarrow> nat \<Rightarrow> (unit, redis) io" where
  "CacheService_set h key v ttl =
     try_catch
       (await (evaluate (JSON_stringify h v)) (\<lambda>stringValue.
          redis_set key stringValue ttl))
       (\<lambda>error. ret ())"

definition CacheService_del :: "string \<Rightarrow> (unit, redis) io" where
  "CacheService_del key =
     try_catch
       (await (redis_del [key]) (\<lambda>n. ret ()))
       (\<lambda>error. ret ())"

definition CacheService_delByPattern :: "string \<Rightarrow> (unit, redis) io" where
  "CacheService_delByPattern pattern =
     try_catch
       (await (redis_keys pattern) (\<lambda>keys.
          if length keys > 0 then await (redis_del keys) (\<lambda>n. ret ()) else ret ()))
       (\<lambda>error. ret ())"

section \<open>The entity store\<close>

text \<open>
  The document store holds the collection of the Property model and that of the User
  model. A stored document is a record of the schema's fields (the storage identifier
  and the timestamps are left out); \<open>propertyId\<close> carries a unique index. Reads and
  writes of the store itself do not fail in this model, except where a write would break
  the unique index or the mapper rejects a value.
\<close>

record recommendation =
  rec_propertyId :: string
  recommendedBy :: string
  recommendedAt :: int

record user =
  user_id :: string
  email :: string
  password :: string
  favorites :: "string list"
  recommendationsReceived :: "recommendation list"

record database =
  Property :: "property list"
  User :: "user list"

definition doc_fields :: "property \<Rightarrow> (string \<times> json) list" where
  "doc_fields p =
     [(''propertyId'', JStr (propertyId p)),
      (''title'', JStr (title p)),
      (''type'', JStr (type p)),
      (''price'', JNum (Fin (price p))),
      (''state'', JStr (state p)),
      (''city'', JStr (city p)),
      (''areaSqFt'', JNum (Fin (areaSqFt p))),
      (''bedrooms'', JNum (Fin (bedrooms p))),
      (''bathrooms'', JNum (Fin (bathrooms p))),
      (''amenities'', JArr (map JStr (amenities p))),
      (''furnished'', JStr (furnished p)),
      (''availableFrom'', JDate (Date (availableFrom p))),
      (''listedBy'', JStr (listedBy p)),
      (''tags'', JArr (map JStr (tags p))),
      (''colorTheme'', JStr (colorTheme p)),
      (''rating'', JNum (Fin (rating p))),
      (''isVerified'', JBool (isVerified p)),
      (''listingType'', JStr (listingType p)),
      (''createdBy'', (case createdBy p of None \<Rightarrow> JNull | Some u \<Rightarrow> JStr u))]"

definition property_json :: "property \<Rightarrow> json" where
  "property_json p = JObj (doc_fields p)"

subsection \<open>Filters\<close>









subsection \<open>Operations of the Property model\<close>

definition Property_findOne :: "string \<Rightarrow> database \<Rightarrow> property option" where
  "Property_findOne ident d = find (\<lambda>p. propertyId p = ident) (Property d)"

definition Property_create :: "host \<Rightarrow> (string \<times> json) list \<Rightarrow> (property, database) io" where
  "Property_create h doc =
     await (evaluate (cast_document h doc)) (\<lambda>p d.
       if Property_findOne (propertyId p) d \<noteq> None then (Inl MongoServerError, d)
       else (Inr p, d\<lparr>Property := Property d @ [p]\<rparr>))"

fun replace_first :: "('a \<Rightarrow> bool) \<Rightarrow> 'a \<Rightarrow> 'a list \<Rightarrow> 'a list" where
  "replace_first P y [] = []"
| "replace_first P y (x # xs) = (if P x then y # xs else x # replace_first P y xs)"

definition Property_findOneAndUpdate ::
    "host \<Rightarrow> string \<Rightarrow> (string \<times> json) list \<Rightarrow> (property option, database) io" where
  "Property_findOneAndUpdate h ident update d =
     (case Property_findOne ident d of
        None \<Rightarrow> (Inr None, d)
      | Some p \<Rightarrow>
          (case cast_update h update p of
             Inl e \<Rightarrow> (Inl e, d)
           | Inr p' \<Rightarrow>
               if propertyId p' \<noteq> ident \<and> Property_findOne (propertyId p') d \<noteq> None
               then (Inl MongoServerError, d)
               else (Inr (Some p'),
                     d\<lparr>Property := replace_first (\<lambda>x. propertyId x = ident) p' (Property d)\<rparr>)))"

definition Property_deleteOne :: "property \<Rightarrow> (unit, database) io" where
  "Property_deleteOne p d = (Inr (), d\<lparr>Property := remove1 p (Property d)\<rparr>)"






subsection \<open>Operations of the User model\<close>

definition User_findById :: "string \<Rightarrow> database \<Rightarrow> user option" where
  "User_findById ident d = find (\<lambda>u. user_id u = ident) (User d)"

definition User_save :: "user \<Rightarrow> (unit, database) io" where
  "User_save u d = (Inr (), d\<lparr>User := replace_first (\<lambda>x. user_id x = user_id u) u (User d)\<rparr>)"

section \<open>Request handlers\<close>

text \<open>
  A handler runs on the cache and the entity store together and ends with the response
  it sent. \<open>user\<close> is the identifier the authentication middleware attached to the
  request, if any.
\<close>

record world =
  cache :: redis
  db :: database

record response =
  status :: nat
  body :: json

definition on_cache :: "('a, redis) io \<Rightarrow> ('a, world) io" where
  "on_cache m w = (case m (cache w) of (x, r') \<Rightarrow> (x, w\<lparr>cache := r'\<rparr>))"

definition on_db :: "('a, database) io \<Rightarrow> ('a, world) io" where
  "on_db m w = (case m (db w) of (x, d') \<Rightarrow> (x, w\<lparr>db := d'\<rparr>))"

definition read_db :: "(database \<Rightarrow> 'a) \<Rightarrow> ('a, world) io" where
  "read_db f w = (Inr (f (db w)), w)"

definition query_db :: "(database \<Rightarrow> exn + 'a) \<Rightarrow> ('a, world) io" where
  "query_db f w = (f (db w), w)"

definition reply :: "nat \<Rightarrow> json \<Rightarrow> (response, world) io" where
  "reply code payload = ret \<lparr>status = code, body = payload\<rparr>"

definition message :: "string \<Rightarrow> json" where
  "message m = JObj [(''message'', JStr m)]"

definition failure :: "string \<Rightarrow> json" where
  "failure m = JObj [(''error'', JStr m)]"

text \<open>The text an exception carries; only its class is kept.\<close>

definition exn_message :: "exn \<Rightarrow> string" where
  "exn_message e =
     (case e of
        RedisError \<Rightarrow> ''RedisError''
      | SyntaxError \<Rightarrow> ''SyntaxError''
      | TypeError \<Rightarrow> ''TypeError''
      | CastError \<Rightarrow> ''CastError''
      | ValidationError \<Rightarrow> ''ValidationError''
      | MongoServerError \<Rightarrow> ''MongoServerError'')"

subsection \<open>createProperty\<close>

text \<open>
  The body's \<^verbatim>\<open>availableFrom\<close>, when present, is split at the slashes into day,
  month and year and rebuilt as a date; a part that is missing prints as
  \<^verbatim>\<open>undefined\<close>, and a value that is not a string has no \<^verbatim>\<open>split\<close>.
\<close>

definition part :: "string list \<Rightarrow> nat \<Rightarrow> string" where
  "part ps i = (if i < length ps then ps ! i else ''undefined'')"

definition set_field :: "string \<Rightarrow> json \<Rightarrow> (string \<times> json) list \<Rightarrow> (string \<times> json) list" where
  "set_field name v obj =
     (if name \<in> fst ` set obj then map (\<lambda>(k, x). if k = name then (k, v) else (k, x)) obj
      else obj @ [(name, v)])"

definition propertyData :: "host \<Rightarrow> (string \<times> json) list \<Rightarrow> exn + (string \<times> json) list" where
  "propertyData h reqBody =
     (case map_of reqBody ''availableFrom'' of
        None \<Rightarrow> Inr reqBody
      | Some v \<Rightarrow>
          if \<not> truthy v then Inr reqBody
          else (case v of
                  JStr s \<Rightarrow>
                    (let ps = split CHR ''/'' s
                     in Inr (set_field ''availableFrom''
                          (JDate (new_Date h (''20'' @ part ps 2 @ ''-'' @ part ps 1 @ ''-'' @ part ps 0)))
                          reqBody))
                | _ \<Rightarrow> Inl TypeError))"

definition createProperty :: "host \<Rightarrow> string option \<Rightarrow> (string \<times> json) list \<Rightarrow> (response, world) io" where
  "createProperty h user reqBody =
     try_catch
       (case user of
          None \<Rightarrow> reply 401 (message ''User not authenticated'')
        | Some uid \<Rightarrow>
            await (evaluate (propertyData h reqBody)) (\<lambda>pd.
            await (on_db (Property_create h (set_field ''createdBy'' (JStr uid) pd))) (\<lambda>p.
            await (on_cache (CacheService_delByPattern ''properties:*'')) (\<lambda>u1.
            await (on_cache (CacheService_delByPattern ''search:*'')) (\<lambda>u2.
            reply 201 (property_json p))))))
       (\<lambda>err. reply 500 (JObj [(''error'', JStr ''Failed to create property''),
                               (''details'', JStr (exn_message err))]))"

subsection \<open>getAllProperties\<close>

definition getAllProperties :: "host \<Rightarrow> (response, world) io" where
  "getAllProperties h =
     try_catch
       (await (on_cache (CacheService_get h CACHE_KEYS_PROPERTIES)) (\<lambda>cachedProperties.
          if truthy cachedProperties then reply 200 cachedProperties
          else
            await (read_db Property) (\<lambda>properties.
            await (on_cache (CacheService_set h CACHE_KEYS_PROPERTIES
                      (JArr (map property_json properties)) CACHE_TTL)) (\<lambda>u.
            reply 200 (JArr (map property_json properties))))))
       (\<lambda>err. reply 500 (failure ''Failed to fetch properties''))"

subsection \<open>getPropertyById\<close>

definition getPropertyById :: "host \<Rightarrow> string \<Rightarrow> (response, world) io" where
  "getPropertyById h ident =
     try_catch
       (let cacheKey = CACHE_KEYS_PROPERTY ident in
        await (on_cache (CacheService_get h cacheKey)) (\<lambda>cachedProperty.
          if truthy cachedProperty then reply 200 cachedProperty
          else
            await (read_db (Property_findOne ident)) (\<lambda>found.
              case found of
                None \<Rightarrow> reply 404 (message ''Property not found'')
              | Some p \<Rightarrow>
                  await (on_cache (CacheService_set h cacheKey (property_json p) CACHE_TTL)) (\<lambda>u.
                  reply 200 (property_json p)))))
       (\<lambda>err. reply 500 (failure ''Failed to fetch property''))"

subsection \<open>updateProperty\<close>

definition updateProperty ::
    "host \<Rightarrow> string option \<Rightarrow> string \<Rightarrow> (string \<times> json) list \<Rightarrow> (response, world) io" where
  "updateProperty h user ident reqBody =
     try_catch
       (case user of
          None \<Rightarrow> reply 401 (message ''User not authenticated'')
        | Some uid \<Rightarrow>
            await (read_db (Property_findOne ident)) (\<lambda>found.
              case found of
                None \<Rightarrow> reply 404 (message ''Property not found'')
              | Some p \<Rightarrow>
                  if createdBy p \<noteq> Some uid
                  then reply 403 (message ''Not allowed to update this property'')
                  else
                    await (on_db (Property_findOneAndUpdate h ident reqBody)) (\<lambda>updated.
                    await (on_cache (CacheService_del (CACHE_KEYS_PROPERTY ident))) (\<lambda>u1.
                    await (on_cache (CacheService_delByPattern ''properties:*'')) (\<lambda>u2.
                    await (on_cache (CacheService_delByPattern ''search:*'')) (\<lambda>u3.
                    reply 200 (case updated of None \<Rightarrow> JNull | Some p' \<Rightarrow> property_json p')))))))
       (\<lambda>err. reply 500 (failure ''Failed to update property''))"

subsection \<open>deleteProperty\<close>

definition deleteProperty :: "host \<Rightarrow> string option \<Rightarrow> string \<Rightarrow> (response, world) io" where
  "deleteProperty h user ident =
     try_catch
       (case user of
          None \<Rightarrow> reply 401 (message ''User not authenticated'')
        | Some uid \<Rightarrow>
            await (read_db (Property_findOne ident)) (\<lambda>found.
              case found of
                None \<Rightarrow> reply 404 (message ''Property not found'')
              | Some p \<Rightarrow>
                  if createdBy p \<noteq> Some uid
                  then reply 403 (message ''Not allowed to delete this property'')
                  else
                    await (on_db (Property_deleteOne p)) (\<lambda>u0.
                    await (on_cache (CacheService_del (CACHE_KEYS_PROPERTY ident))) (\<lambda>u1.
                    await (on_cache (CacheService_delByPattern ''properties:*'')) (\<lambda>u2.
                    await (on_cache (CacheService_delByPattern ''search:*'')) (\<lambda>u3.
                    reply 200 (message ''Property deleted'')))))))
       (\<lambda>err. reply 500 (failure ''Failed to delete property''))"

subsection \<open>searchProperties\<close>











subsection \<open>Favourites\<close>

definition getFavorites :: "host \<Rightarrow> string option \<Rightarrow> (response, world) io" where
  "getFavorites h user =
     try_catch
       (case user of
          None \<Rightarrow> reply 401 (message ''User not authenticated'')
        | Some uid \<Rightarrow>
            (let cacheKey = CACHE_KEYS_USER_FAVORITES uid in
             await (on_cache (CacheService_get h cacheKey)) (\<lambda>cachedFavorites.
               if truthy cachedFavorites then reply 200 cachedFavorites
               else
                 await (read_db (User_findById uid)) (\<lambda>userDoc.
                   case userDoc of
                     None \<Rightarrow> reply 404 (message ''User not found'')
                   | Some u \<Rightarrow>
                       await (read_db (\<lambda>d. filter (\<lambda>p. propertyId p \<in> set (favorites u)) (Property d)))
                         (\<lambda>favoriteProperties.
                       await (on_cache (CacheService_set h cacheKey
                                 (JArr (map property_json favoriteProperties)) CACHE_TTL)) (\<lambda>u1.
                       reply 200 (JArr (map property_json favoriteProperties))))))))
       (\<lambda>err. reply 500 (failure ''Failed to fetch favorites''))"

definition addFavorite :: "string option \<Rightarrow> string \<Rightarrow> (response, world) io" where
  "addFavorite user ident =
     try_catch
       (case user of
          None \<Rightarrow> reply 401 (message ''User not authenticated'')
        | Some uid \<Rightarrow>
            await (read_db (Property_findOne ident)) (\<lambda>found.
              case found of
                None \<Rightarrow> reply 404 (message ''Property not found'')
              | Some p \<Rightarrow>
                  await (read_db (User_findById uid)) (\<lambda>userDoc.
                    case userDoc of
                      None \<Rightarrow> reply 404 (message ''User not found'')
                    | Some u \<Rightarrow>
                        if propertyId p \<in> set (favorites u)
                        then reply 400 (message ''Property already in favorites'')
                        else
                          await (on_db (User_save (u\<lparr>favorites := favorites u @ [propertyId p]\<rparr>))) (\<lambda>u0.
                          await (on_cache (CacheService_del (CACHE_KEYS_USER_FAVORITES uid))) (\<lambda>u1.
                          reply 200 (message ''Property added to favorites''))))))
       (\<lambda>err. reply 500 (failure ''Failed to add favorite''))"

definition removeFavorite :: "string option \<Rightarrow> string \<Rightarrow> (response, world) io" where
  "removeFavorite user ident =
     try_catch
       (case user of
          None \<Rightarrow> reply 401 (message ''User not authenticated'')
        | Some uid \<Rightarrow>
            await (read_db (Property_findOne ident)) (\<lambda>found.
              case found of
                None \<Rightarrow> reply 404 (message ''Property not found'')
              | Some p \<Rightarrow>
                  await (read_db (User_findById uid)) (\<lambda>userDoc.
                    case userDoc of
                      None \<Rightarrow> reply 404 (message ''User not found'')
                    | Some u \<Rightarrow>
                        await (on_db (User_save
                                 (u\<lparr>favorites := filter (\<lambda>favId. favId \<noteq> propertyId p) (favorites u)\<rparr>))) (\<lambda>u0.
                        await (on_cache (CacheService_del (CACHE_KEYS_USER_FAVORITES uid))) (\<lambda>u1.
                        reply 200 (message ''Property removed from favorites''))))))
       (\<lambda>err. reply 500 (failure ''Failed to remove favorite''))"

section \<open>A concrete instance for worked examples\<close>

text \<open>
  Worked examples need the runtime's functions at concrete values. In this instance a
  stored string parses to the string itself, every value prints as a fixed text, and the
  mapper reads a document's identifier and owner from the body.
\<close>

definition listing :: "string \<Rightarrow> string option \<Rightarrow> rat \<Rightarrow> string list \<Rightarrow> property" where
  "listing ident owner cost ams =
     \<lparr>propertyId = ident, title = ''Home'', type = ''Apartment'', price = cost, state = ''Goa'',
      city = ''Panaji'', areaSqFt = 900, bedrooms = 2, bathrooms = 1, amenities = ams,
      furnished = ''Semi'', availableFrom = 0, listedBy = ''Owner'', tags = [],
      colorTheme = ''#fff'', rating = 4, isVerified = True, listingType = ''rent'',
      createdBy = owner\<rparr>"

definition example_host :: host where
  "example_host =
     \<lparr>JSON_parse = (\<lambda>s. Inr (JStr s)),
      JSON_stringify = (\<lambda>v. Inr ''cached''),
      parseFloat = parseInt,
      new_Date = (\<lambda>s. InvalidDate),
      cast_document = (\<lambda>doc.
        case map_of doc ''propertyId'' of
          Some (JStr i) \<Rightarrow>
            Inr (listing i (case map_of doc ''createdBy'' of Some (JStr u) \<Rightarrow> Some u | _ \<Rightarrow> None) 100 [])
        | _ \<Rightarrow> Inl ValidationError),
      cast_update = (\<lambda>upd p.
        case map_of upd ''price'' of Some (JNum (Fin x)) \<Rightarrow> Inr (p\<lparr>price := x\<rparr>) | _ \<Rightarrow> Inr p),
      sort_documents = (\<lambda>srt ps. ps)\<rparr>"

definition example_db :: database where
  "example_db =
     \<lparr>Property = [listing ''P1'' (Some ''u1'') 100 [''pool'', ''gym''],
                  listing ''P2'' (Some ''u2'') 200 [''pool'']],
      User = [\<lparr>user_id = ''u1'', email = ''u1@example.org'', password = ''hash'',
                favorites = [''P1''], recommendationsReceived = []\<rparr>]\<rparr>"

text \<open>A cache holding an entry of each family, with a given plan of failures.\<close>

definition warm_cache :: "bool list \<Rightarrow> redis" where
  "warm_cache fs =
     \<lparr>entries = [(''property:P1'', ''old P1'', 3600),
                 (''properties:all'', ''old list'', 3600),
                 (''search:{}'', ''old page'', 3600)],
      faults = fs\<rparr>"

section \<open>Properties of the cache service\<close>

lemma CacheService_get_total:
  "\<exists>x r'. CacheService_get h key r = (Inr x, r') \<and> entries r' = entries r \<and>
      (isl (fst (redis_get key r)) \<longrightarrow> x = JNull) \<and>
      (\<forall>d. fst (redis_get key r) = Inr (Some d) \<and> isl (JSON_parse h d) \<longrightarrow> x = JNull) \<and>
      (fst (redis_get key r) = Inr None \<longrightarrow> x = JNull)"
  by (auto simp: CacheService_get_def try_catch_def await_def ret_def throw_def evaluate_def
        redis_get_def command_def split: list.splits sum.splits option.splits)

lemma CacheService_set_total:
  "\<exists>r'. CacheService_set h key v ttl r = (Inr (), r') \<and>
      (isl (JSON_stringify h v) \<longrightarrow> r' = r) \<and>
      (\<forall>s. JSON_stringify h v = Inr s \<and> isl (fst (redis_set key s ttl r)) \<longrightarrow>
           entries r' = entries r)"
  by (auto simp: CacheService_set_def try_catch_def await_def ret_def throw_def evaluate_def
        redis_set_def command_def split: list.splits sum.splits option.splits)

lemma CacheService_del_total:
  "\<exists>r'. CacheService_del key r = (Inr (), r') \<and>
      (isl (fst (redis_del [key] r)) \<longrightarrow> entries r' = entries r)"
  by (auto simp: CacheService_del_def try_catch_def await_def ret_def
        redis_del_def command_def split: list.splits sum.splits)

lemma CacheService_delByPattern_total:
  "\<exists>r'. CacheService_delByPattern pattern r = (Inr (), r') \<and>
      (isl (fst (redis_keys pattern r)) \<longrightarrow> entries r' = entries r) \<and>
      (\<forall>ks r1. redis_keys pattern r = (Inr ks, r1) \<and> isl (fst (redis_del ks r1)) \<longrightarrow>
           entries r' = entries r)"
  by (auto simp: CacheService_delByPattern_def try_catch_def await_def ret_def
        redis_del_def redis_keys_def command_def split: list.splits sum.splits)

text \<open>
  Claim C4. For every key, value, expiry, pattern and state of the store, whatever the
  commands to come do, each operation of the cache service returns normally (its result
  is never an exception). When the store command fails, or the stored string does not
  parse, \<open>get\<close> returns null; when printing the value or a store command fails,
  \<open>set\<close>, \<open>del\<close> and \<open>delByPattern\<close> return with the entries as they were.
\<close>

theorem CacheService_never_raises:
  "(\<exists>x r'. CacheService_get h key r = (Inr x, r') \<and> entries r' = entries r \<and>
      (isl (fst (redis_get key r)) \<longrightarrow> x = JNull) \<and>
      (\<forall>d. fst (redis_get key r) = Inr (Some d) \<and> isl (JSON_parse h d) \<longrightarrow> x = JNull)) \<and>
   (\<exists>r'. CacheService_set h key v ttl r = (Inr (), r') \<and>
      (isl (JSON_stringify h v) \<longrightarrow> r' = r) \<and>
      (\<forall>s. JSON_stringify h v = Inr s \<and> isl (fst (redis_set key s ttl r)) \<longrightarrow>
           entries r' = entries r)) \<and>
   (\<exists>r'. CacheService_del key r = (Inr (), r') \<and>
      (isl (fst (redis_del [key] r)) \<longrightarrow> entries r' = entries r)) \<and>
   (\<exists>r'. CacheService_delByPattern pattern r = (Inr (), r') \<and>
      (isl (fst (redis_keys pattern r)) \<longrightarrow> entries r' = entries r) \<and>
      (\<forall>ks r1. redis_keys pattern r = (Inr ks, r1) \<and> isl (fst (redis_del ks r1)) \<longrightarrow>
           entries r' = entries r))"
proof -
  have g: "\<exists>x r'. CacheService_get h key r = (Inr x, r') \<and> entries r' = entries r \<and>
      (isl (fst (redis_get key r)) \<longrightarrow> x = JNull) \<and>
      (\<forall>d. fst (redis_get key r) = Inr (Some d) \<and> isl (JSON_parse h d) \<longrightarrow> x = JNull)"
    using CacheService_get_total [of h key r] by blast
  show ?thesis
    using g CacheService_set_total [of h key v ttl r] CacheService_del_total [of key r]
      CacheService_delByPattern_total [of pattern r]
    by blast
qed

theorem CacheService_never_raises_witness:
  "CacheService_get example_host ''k'' \<lparr>entries = [(''k'', ''v'', 60)], faults = [True]\<rparr>
     = (Inr JNull, \<lparr>entries = [(''k'', ''v'', 60)], faults = []\<rparr>) \<and>
   CacheService_set example_host ''k'' JNull 60 \<lparr>entries = [], faults = [True]\<rparr>
     = (Inr (), \<lparr>entries = [], faults = []\<rparr>) \<and>
   CacheService_del ''k'' \<lparr>entries = [(''k'', ''v'', 60)], faults = [True]\<rparr>
     = (Inr (), \<lparr>entries = [(''k'', ''v'', 60)], faults = []\<rparr>) \<and>
   CacheService_delByPattern ''k*'' \<lparr>entries = [(''k'', ''v'', 60)], faults = [False, True]\<rparr>
     = (Inr (), \<lparr>entries = [(''k'', ''v'', 60)], faults = []\<rparr>)"
  using CacheService_never_raises
    [of example_host "''k''" "\<lparr>entries = [(''k'', ''v'', 60)], faults = [True]\<rparr>" JNull 60 "''k*''"]
  by (simp add: CacheService_get_def CacheService_set_def CacheService_del_def
      CacheService_delByPattern_def try_catch_def await_def ret_def throw_def evaluate_def
      redis_get_def redis_set_def redis_del_def redis_keys_def command_def example_host_def)

section \<open>Patterns and keys\<close>

lemma glob_star: "glob_match ''*'' s"
  by (induction s) auto

lemma glob_literal:
  "p \<notin> {CHR ''*'', CHR ''?'', CHR ''['', backslash} \<Longrightarrow>
   glob_match (p # ps) s = (\<exists>cs. s = p # cs \<and> glob_match ps cs)"
  by (cases s) auto

lemma glob_prefix:
  "set pre \<inter> {CHR ''*'', CHR ''?'', CHR ''['', backslash} = {} \<Longrightarrow>
   glob_match (pre @ ''*'') k = (\<exists>rest. k = pre @ rest)"
proof (induction pre arbitrary: k)
  case Nil
  then show ?case by (simp add: glob_star)
next
  case (Cons p ps)
  from Cons.prems have p: "p \<notin> {CHR ''*'', CHR ''?'', CHR ''['', backslash}"
    and ps: "set ps \<inter> {CHR ''*'', CHR ''?'', CHR ''['', backslash} = {}"
    by auto
  have "glob_match ((p # ps) @ ''*'') k = (\<exists>cs. k = p # cs \<and> glob_match (ps @ ''*'') cs)"
    using glob_literal [OF p, of "ps @ ''*''" k] by simp
  also have "\<dots> = (\<exists>cs. k = p # cs \<and> (\<exists>rest. cs = ps @ rest))"
    using Cons.IH [OF ps] by simp
  also have "\<dots> = (\<exists>rest. k = (p # ps) @ rest)"
    by auto
  finally show ?case .
qed

lemma glob_properties: "glob_match ''properties:*'' k = (\<exists>rest. k = ''properties:'' @ rest)"
  using glob_prefix [of "''properties:''" k] by simp

lemma glob_search: "glob_match ''search:*'' k = (\<exists>rest. k = ''search:'' @ rest)"
  using glob_prefix [of "''search:''" k] by simp

lemma property_key_not_swept:
  "\<not> glob_match ''properties:*'' (CACHE_KEYS_PROPERTY ident)"
  "\<not> glob_match ''search:*'' (CACHE_KEYS_PROPERTY ident)"
  by (simp_all add: glob_properties glob_search CACHE_KEYS_PROPERTY_def)

lemma map_of_filter_key:
  "map_of (filter (\<lambda>e. P (fst e)) xs) k = (if P k then map_of xs k else None)"
  by (induction xs) auto

section \<open>Cache operations whose commands succeed\<close>

lemma succeeding_Suc: "succeeding (Suc n) r \<Longrightarrow> succeeding n r"
proof -
  have "set (take n (faults r)) \<subseteq> set (take (Suc n) (faults r))"
    by (rule set_take_subset_set_take) simp
  then show "succeeding (Suc n) r \<Longrightarrow> succeeding n r"
    unfolding succeeding_def list_all_iff by blast
qed

lemma command_ok:
  assumes "succeeding (Suc n) r"
  shows "\<exists>r0. command run r = run r0 \<and> entries r0 = entries r \<and> succeeding n r0"
proof (cases "faults r")
  case Nil
  then show ?thesis using assms by (auto simp: command_def succeeding_def intro!: exI [of _ r])
next
  case (Cons b bs)
  then show ?thesis using assms
    by (auto simp: command_def succeeding_def intro!: exI [of _ "r\<lparr>faults := bs\<rparr>"])
qed

lemma CacheService_del_ok:
  assumes "succeeding (Suc n) r"
  shows "\<exists>r'. CacheService_del key r = (Inr (), r') \<and>
           entries r' = filter (\<lambda>e. fst e \<noteq> key) (entries r) \<and> succeeding n r'"
proof -
  obtain r0 where c: "redis_del [key] r =
      (Inr (length (filter (\<lambda>e. fst e \<in> set [key]) (entries r0))),
       r0\<lparr>entries := filter (\<lambda>e. fst e \<notin> set [key]) (entries r0)\<rparr>)"
    and e: "entries r0 = entries r" and s: "succeeding n r0"
    using command_ok [OF assms] unfolding redis_del_def by blast
  show ?thesis
    using c e s by (simp add: CacheService_del_def try_catch_def await_def ret_def succeeding_def)
qed

lemma CacheService_delByPattern_ok:
  assumes "succeeding (Suc (Suc n)) r"
  shows "\<exists>r'. CacheService_delByPattern pat r = (Inr (), r') \<and>
           entries r' = filter (\<lambda>e. \<not> glob_match pat (fst e)) (entries r) \<and> succeeding n r'"
proof -
  let ?ks = "filter (glob_match pat) (map fst (entries r))"
  obtain r0 where c: "redis_keys pat r = (Inr (filter (glob_match pat) (map fst (entries r0))), r0)"
    and e: "entries r0 = entries r" and s: "succeeding (Suc n) r0"
    using command_ok [OF assms] unfolding redis_keys_def by blast
  show ?thesis
  proof (cases "?ks = []")
    case True
    then have "filter (\<lambda>e. \<not> glob_match pat (fst e)) (entries r) = entries r"
      by (auto simp: filter_empty_conv filter_id_conv)
    then show ?thesis
      using c e s True succeeding_Suc [OF s]
      by (auto simp: CacheService_delByPattern_def try_catch_def await_def ret_def)
  next
    case False
    obtain r1 where d: "redis_del ?ks r0 =
        (Inr (length (filter (\<lambda>e. fst e \<in> set ?ks) (entries r1))),
         r1\<lparr>entries := filter (\<lambda>e. fst e \<notin> set ?ks) (entries r1)\<rparr>)"
      and e1: "entries r1 = entries r0" and s1: "succeeding n r1"
      using command_ok [OF s] unfolding redis_del_def by blast
    have f: "filter (\<lambda>e. fst e \<notin> set ?ks) (entries r) = filter (\<lambda>e. \<not> glob_match pat (fst e)) (entries r)"
      by (rule filter_cong) auto
    show ?thesis
      using c e d e1 s1 False f
      by (auto simp: CacheService_delByPattern_def try_catch_def await_def ret_def succeeding_def)
  qed
qed

lemma filter_matching_keys:
  "filter (\<lambda>e. fst e \<notin> set (filter (glob_match pat) (map fst xs))) xs =
   filter (\<lambda>e. \<not> glob_match pat (fst e)) xs"
  by (rule filter_cong) auto

lemma CacheService_delByPattern_entries:
  "\<exists>r'. CacheService_delByPattern pat r = (Inr (), r') \<and>
      (entries r' = entries r \<or>
       entries r' = filter (\<lambda>e. \<not> glob_match pat (fst e)) (entries r))"
proof -
  obtain x r1 where k: "redis_keys pat r = (x, r1)" by (cases "redis_keys pat r")
  have e1: "entries r1 = entries r"
    using k by (auto simp: redis_keys_def command_def split: list.splits if_splits)
  show ?thesis
  proof (cases x)
    case (Inl e)
    then show ?thesis using k e1
      by (simp add: CacheService_delByPattern_def try_catch_def await_def ret_def)
  next
    case (Inr ks)
    have ks: "ks = filter (glob_match pat) (map fst (entries r))"
      using k Inr by (auto simp: redis_keys_def command_def split: list.splits if_splits)
    obtain y r2 where d: "redis_del ks r1 = (y, r2)" by (cases "redis_del ks r1")
    have e2: "entries r2 = entries r1 \<or> entries r2 = filter (\<lambda>e. fst e \<notin> set ks) (entries r1)"
      using d by (auto simp: redis_del_def command_def split: list.splits if_splits)
    show ?thesis
      using k Inr d e1 e2 filter_matching_keys [of pat "entries r"]
      by (cases y) (auto simp: ks CacheService_delByPattern_def try_catch_def await_def ret_def)
  qed
qed

lemma CacheService_delByPattern_keeps:
  assumes "\<not> glob_match pat k"
  shows "\<exists>r'. CacheService_delByPattern pat r = (Inr (), r') \<and>
           map_of (entries r') k = map_of (entries r) k"
  using CacheService_delByPattern_entries [of pat r] assms
    map_of_filter_key [of "\<lambda>x. \<not> glob_match pat x" "entries r" k]
  by auto

lemma CacheService_get_absent:
  assumes "map_of (entries r) key = None"
  shows "\<exists>r'. CacheService_get h key r = (Inr JNull, r') \<and> entries r' = entries r"
  using assms
  by (auto simp: CacheService_get_def try_catch_def await_def ret_def throw_def evaluate_def
        redis_get_def command_def split: list.splits sum.splits option.splits)


section \<open>Invalidation on update and delete\<close>

lemma invalidate_ok:
  assumes "succeeding 5 r"
  shows "\<exists>r1 r2 r3.
      CacheService_del (CACHE_KEYS_PROPERTY ident) r = (Inr (), r1) \<and>
      CacheService_delByPattern ''properties:*'' r1 = (Inr (), r2) \<and>
      CacheService_delByPattern ''search:*'' r2 = (Inr (), r3) \<and>
      map_of (entries r3) (CACHE_KEYS_PROPERTY ident) = None \<and>
      map_of (entries r3) CACHE_KEYS_PROPERTIES = None \<and>
      (\<forall>qs. map_of (entries r3) (CACHE_KEYS_SEARCH qs) = None)"
proof -
  have s5: "succeeding (Suc 4) r" using assms by (simp add: eval_nat_numeral)
  obtain r1 where d1: "CacheService_del (CACHE_KEYS_PROPERTY ident) r = (Inr (), r1)"
    and e1: "entries r1 = filter (\<lambda>e. fst e \<noteq> CACHE_KEYS_PROPERTY ident) (entries r)"
    and s4: "succeeding 4 r1"
    using CacheService_del_ok [OF s5] by blast
  have s4': "succeeding (Suc (Suc 2)) r1" using s4 by (simp add: eval_nat_numeral)
  obtain r2 where d2: "CacheService_delByPattern ''properties:*'' r1 = (Inr (), r2)"
    and e2: "entries r2 = filter (\<lambda>e. \<not> glob_match ''properties:*'' (fst e)) (entries r1)"
    and s2: "succeeding 2 r2"
    using CacheService_delByPattern_ok [OF s4'] by blast
  have s2': "succeeding (Suc (Suc 0)) r2" using s2 by (simp add: eval_nat_numeral)
  obtain r3 where d3: "CacheService_delByPattern ''search:*'' r2 = (Inr (), r3)"
    and e3: "entries r3 = filter (\<lambda>e. \<not> glob_match ''search:*'' (fst e)) (entries r2)"
    using CacheService_delByPattern_ok [OF s2'] by blast
  have m3: "\<And>k. map_of (entries r3) k = (if \<not> glob_match ''search:*'' k then map_of (entries r2) k else None)"
    unfolding e3 by (rule map_of_filter_key [of "\<lambda>x. \<not> glob_match ''search:*'' x"])
  have m2: "\<And>k. map_of (entries r2) k = (if \<not> glob_match ''properties:*'' k then map_of (entries r1) k else None)"
    unfolding e2 by (rule map_of_filter_key [of "\<lambda>x. \<not> glob_match ''properties:*'' x"])
  have m1: "\<And>k. map_of (entries r1) k = (if k \<noteq> CACHE_KEYS_PROPERTY ident then map_of (entries r) k else None)"
    unfolding e1 by (rule map_of_filter_key [of "\<lambda>x. x \<noteq> CACHE_KEYS_PROPERTY ident"])
  have m: "\<And>k. map_of (entries r3) k =
      (if \<not> glob_match ''search:*'' k \<and> \<not> glob_match ''properties:*'' k \<and> k \<noteq> CACHE_KEYS_PROPERTY ident
       then map_of (entries r) k else None)"
    by (simp add: m3 m2 m1)
  have a: "map_of (entries r3) (CACHE_KEYS_PROPERTY ident) = None" by (simp add: m)
  have b: "map_of (entries r3) CACHE_KEYS_PROPERTIES = None"
    by (simp add: m glob_star CACHE_KEYS_PROPERTIES_def)
  have c: "\<forall>qs. map_of (entries r3) (CACHE_KEYS_SEARCH qs) = None"
    by (simp add: m glob_star CACHE_KEYS_SEARCH_def)
  show ?thesis using d1 d2 d3 a b c by blast
qed

lemma updateProperty_200:
  assumes "updateProperty h user ident reqBody w = (Inr resp, w')" and "status resp = 200"
  shows "\<exists>r1 r2 r3. CacheService_del (CACHE_KEYS_PROPERTY ident) (cache w) = (Inr (), r1) \<and>
      CacheService_delByPattern ''properties:*'' r1 = (Inr (), r2) \<and>
      CacheService_delByPattern ''search:*'' r2 = (Inr (), r3) \<and> cache w' = r3"
proof -
  obtain r1 where d1: "CacheService_del (CACHE_KEYS_PROPERTY ident) (cache w) = (Inr (), r1)"
    using CacheService_del_total by blast
  obtain r2 where d2: "CacheService_delByPattern ''properties:*'' r1 = (Inr (), r2)"
    using CacheService_delByPattern_total by blast
  obtain r3 where d3: "CacheService_delByPattern ''search:*'' r2 = (Inr (), r3)"
    using CacheService_delByPattern_total by blast
  have "cache w' = r3"
    using assms d1 d2 d3
    by (auto simp: updateProperty_def try_catch_def await_def ret_def reply_def on_cache_def on_db_def
        read_db_def Property_findOneAndUpdate_def
        split: option.splits if_splits sum.splits prod.splits)
  then show ?thesis using d1 d2 d3 by blast
qed

lemma deleteProperty_200:
  assumes "deleteProperty h user ident w = (Inr resp, w')" and "status resp = 200"
  shows "\<exists>r1 r2 r3. CacheService_del (CACHE_KEYS_PROPERTY ident) (cache w) = (Inr (), r1) \<and>
      CacheService_delByPattern ''properties:*'' r1 = (Inr (), r2) \<and>
      CacheService_delByPattern ''search:*'' r2 = (Inr (), r3) \<and> cache w' = r3"
proof -
  obtain r1 where d1: "CacheService_del (CACHE_KEYS_PROPERTY ident) (cache w) = (Inr (), r1)"
    using CacheService_del_total by blast
  obtain r2 where d2: "CacheService_delByPattern ''properties:*'' r1 = (Inr (), r2)"
    using CacheService_delByPattern_total by blast
  obtain r3 where d3: "CacheService_delByPattern ''search:*'' r2 = (Inr (), r3)"
    using CacheService_delByPattern_total by blast
  have "cache w' = r3"
    using assms d1 d2 d3
    by (auto simp: deleteProperty_def try_catch_def await_def ret_def reply_def on_cache_def on_db_def
        read_db_def Property_deleteOne_def
        split: option.splits if_splits sum.splits prod.splits)
  then show ?thesis using d1 d2 d3 by blast
qed

lemmas run_defs =
  updateProperty_def deleteProperty_def getPropertyById_def createProperty_def
  try_catch_def await_def ret_def throw_def evaluate_def reply_def on_cache_def on_db_def
  read_db_def query_db_def message_def failure_def
  Property_findOneAndUpdate_def Property_findOne_def Property_deleteOne_def Property_create_def
  CacheService_get_def CacheService_set_def CacheService_del_def CacheService_delByPattern_def
  redis_get_def redis_set_def redis_del_def redis_keys_def command_def
  example_host_def example_db_def warm_cache_def listing_def
  CACHE_KEYS_PROPERTY_def CACHE_KEYS_PROPERTIES_def CACHE_KEYS_SEARCH_def CACHE_TTL_def
  property_json_def doc_fields_def propertyData_def set_field_def truthy_def Let_def


text \<open>
  Claim C1, as the handlers implement it. When an update or a delete of the listing
  \<open>ident\<close> completes with status 200 and the store commands of its invalidation (at
  most five) succeed, the cache holds no entry under the listing's own key, under the
  collection key, or under any search-result key, and a read of any of these keys yields
  null. The invalidation follows the mutation in the handler; a store command that fails
  is caught inside the cache service and leaves the entries in place.
\<close>

theorem invalidation_after_mutation:
  assumes "updateProperty h user ident reqBody w = (Inr resp, w') \<or>
           deleteProperty h user ident w = (Inr resp, w')"
    and "status resp = 200"
    and "succeeding 5 (cache w)"
  shows "map_of (entries (cache w')) (CACHE_KEYS_PROPERTY ident) = None \<and>
         map_of (entries (cache w')) CACHE_KEYS_PROPERTIES = None \<and>
         (\<forall>qs. map_of (entries (cache w')) (CACHE_KEYS_SEARCH qs) = None) \<and>
         (\<forall>k. k = CACHE_KEYS_PROPERTY ident \<or> k = CACHE_KEYS_PROPERTIES \<or> (\<exists>qs. k = CACHE_KEYS_SEARCH qs)
              \<longrightarrow> fst (CacheService_get h k (cache w')) = Inr JNull)"
proof -
  obtain r1 r2 r3 where run:
    "CacheService_del (CACHE_KEYS_PROPERTY ident) (cache w) = (Inr (), r1)"
    "CacheService_delByPattern ''properties:*'' r1 = (Inr (), r2)"
    "CacheService_delByPattern ''search:*'' r2 = (Inr (), r3)"
    and c: "cache w' = r3"
    using assms(1,2) updateProperty_200 deleteProperty_200 by blast
  obtain q1 q2 q3 where ok:
    "CacheService_del (CACHE_KEYS_PROPERTY ident) (cache w) = (Inr (), q1)"
    "CacheService_delByPattern ''properties:*'' q1 = (Inr (), q2)"
    "CacheService_delByPattern ''search:*'' q2 = (Inr (), q3)"
    and gone: "map_of (entries q3) (CACHE_KEYS_PROPERTY ident) = None"
      "map_of (entries q3) CACHE_KEYS_PROPERTIES = None"
      "\<forall>qs. map_of (entries q3) (CACHE_KEYS_SEARCH qs) = None"
    using invalidate_ok [OF assms(3), of ident] by blast
  have "q3 = r3" using run ok by simp
  then have g: "map_of (entries (cache w')) (CACHE_KEYS_PROPERTY ident) = None"
      "map_of (entries (cache w')) CACHE_KEYS_PROPERTIES = None"
      "\<forall>qs. map_of (entries (cache w')) (CACHE_KEYS_SEARCH qs) = None"
    using gone c by simp_all
  have "\<And>k. map_of (entries (cache w')) k = None \<Longrightarrow> fst (CacheService_get h k (cache w')) = Inr JNull"
    using CacheService_get_absent by (metis fst_conv)
  then show ?thesis using g by blast
qed


text \<open>
  The claim without the proviso fails: with the three invalidation commands failing, the
  update still completes with status 200, the cache is unchanged, and reads of the three
  keys return what was cached before the update.
\<close>

theorem stale_after_failed_invalidation:
  "updateProperty example_host (Some ''u1'') ''P1'' [(''price'', JNum (Fin 500))]
      \<lparr>cache = warm_cache [True, True, True], db = example_db\<rparr>
   = (Inr \<lparr>status = 200, body = property_json (listing ''P1'' (Some ''u1'') 500 [''pool'', ''gym''])\<rparr>,
      \<lparr>cache = warm_cache [],
       db = example_db\<lparr>Property := [listing ''P1'' (Some ''u1'') 500 [''pool'', ''gym''],
                                      listing ''P2'' (Some ''u2'') 200 [''pool'']]\<rparr>\<rparr>) \<and>
   fst (CacheService_get example_host (CACHE_KEYS_PROPERTY ''P1'') (warm_cache [])) = Inr (JStr ''old P1'') \<and>
   fst (CacheService_get example_host CACHE_KEYS_PROPERTIES (warm_cache [])) = Inr (JStr ''old list'') \<and>
   fst (CacheService_get example_host (CACHE_KEYS_SEARCH ''{}'') (warm_cache [])) = Inr (JStr ''old page'')"
  by (simp add: run_defs)


theorem invalidation_after_mutation_witness:
  "updateProperty example_host (Some ''u1'') ''P1'' [(''price'', JNum (Fin 500))]
      \<lparr>cache = warm_cache [], db = example_db\<rparr>
   = (Inr \<lparr>status = 200, body = property_json (listing ''P1'' (Some ''u1'') 500 [''pool'', ''gym''])\<rparr>,
      \<lparr>cache = \<lparr>entries = [], faults = []\<rparr>,
       db = example_db\<lparr>Property := [listing ''P1'' (Some ''u1'') 500 [''pool'', ''gym''],
                                      listing ''P2'' (Some ''u2'') 200 [''pool'']]\<rparr>\<rparr>) \<and>
   succeeding 5 (warm_cache []) \<and>
   map_of (entries (cache \<lparr>cache = \<lparr>entries = [], faults = []\<rparr>, db = example_db\<rparr>)) (CACHE_KEYS_PROPERTY ''P1'') = None \<and>
   fst (CacheService_get example_host (CACHE_KEYS_SEARCH ''{}'') \<lparr>entries = [], faults = []\<rparr>) = Inr JNull"
proof -
  have run: "updateProperty example_host (Some ''u1'') ''P1'' [(''price'', JNum (Fin 500))]
      \<lparr>cache = warm_cache [], db = example_db\<rparr>
   = (Inr \<lparr>status = 200, body = property_json (listing ''P1'' (Some ''u1'') 500 [''pool'', ''gym''])\<rparr>,
      \<lparr>cache = \<lparr>entries = [], faults = []\<rparr>,
       db = example_db\<lparr>Property := [listing ''P1'' (Some ''u1'') 500 [''pool'', ''gym''],
                                      listing ''P2'' (Some ''u2'') 200 [''pool'']]\<rparr>\<rparr>)"
    by (simp add: run_defs)
  have s: "succeeding 5 (cache \<lparr>cache = warm_cache [], db = example_db\<rparr>)"
    by (simp add: succeeding_def warm_cache_def)
  show ?thesis
    using invalidation_after_mutation [OF disjI1 [OF run] _ s] run s
    by (simp add: CACHE_KEYS_SEARCH_def)
qed

section \<open>The single-listing key and the collection pattern\<close>

text \<open>
  Claim C9, as the keys are spelled. For every listing identifier, the single-listing key
  \<^verbatim>\<open>property:<id>\<close> is matched neither by the collection pattern
  \<^verbatim>\<open>properties:*\<close> nor by \<^verbatim>\<open>search:*\<close>, so a pattern delete of either family
  leaves what is cached under a single-listing key as it was; the entry goes by the
  exact-key delete that update and delete of the listing issue, when that command
  succeeds.
\<close>

theorem single_listing_key_outside_collection_pattern:
  "\<not> glob_match ''properties:*'' (CACHE_KEYS_PROPERTY ident) \<and>
   \<not> glob_match ''search:*'' (CACHE_KEYS_PROPERTY ident) \<and>
   (\<exists>r'. CacheService_delByPattern ''properties:*'' r = (Inr (), r') \<and>
      map_of (entries r') (CACHE_KEYS_PROPERTY ident) = map_of (entries r) (CACHE_KEYS_PROPERTY ident)) \<and>
   (\<exists>r'. CacheService_delByPattern ''search:*'' r = (Inr (), r') \<and>
      map_of (entries r') (CACHE_KEYS_PROPERTY ident) = map_of (entries r) (CACHE_KEYS_PROPERTY ident)) \<and>
   (succeeding 1 r \<longrightarrow>
      (\<exists>r'. CacheService_del (CACHE_KEYS_PROPERTY ident) r = (Inr (), r') \<and>
         map_of (entries r') (CACHE_KEYS_PROPERTY ident) = None))"
proof -
  have a: "\<not> glob_match ''properties:*'' (CACHE_KEYS_PROPERTY ident)"
    and b: "\<not> glob_match ''search:*'' (CACHE_KEYS_PROPERTY ident)"
    by (rule property_key_not_swept)+
  have c: "succeeding 1 r \<longrightarrow>
      (\<exists>r'. CacheService_del (CACHE_KEYS_PROPERTY ident) r = (Inr (), r') \<and>
         map_of (entries r') (CACHE_KEYS_PROPERTY ident) = None)"
  proof
    assume "succeeding 1 r"
    then have "succeeding (Suc 0) r" by simp
    then obtain r' where d: "CacheService_del (CACHE_KEYS_PROPERTY ident) r = (Inr (), r')"
      and e: "entries r' = filter (\<lambda>e. fst e \<noteq> CACHE_KEYS_PROPERTY ident) (entries r)"
      using CacheService_del_ok by blast
    have "map_of (entries r') (CACHE_KEYS_PROPERTY ident) = None"
      unfolding e using map_of_filter_key [of "\<lambda>x. x \<noteq> CACHE_KEYS_PROPERTY ident" "entries r" "CACHE_KEYS_PROPERTY ident"]
      by simp
    then show "\<exists>r'. CacheService_del (CACHE_KEYS_PROPERTY ident) r = (Inr (), r') \<and>
         map_of (entries r') (CACHE_KEYS_PROPERTY ident) = None" using d by blast
  qed
  show ?thesis
    using a b c CacheService_delByPattern_keeps [OF a, of r] CacheService_delByPattern_keeps [OF b, of r]
    by blast
qed


text \<open>
  The claim as stated fails: the pattern does not match the key of listing PROP1234, and
  the pattern delete removes the collection entry and keeps the single-listing one.
\<close>

theorem collection_pattern_misses_single_listing:
  "\<not> glob_match ''properties:*'' (CACHE_KEYS_PROPERTY ''PROP1234'') \<and>
   CacheService_delByPattern ''properties:*''
     \<lparr>entries = [(CACHE_KEYS_PROPERTY ''PROP1234'', ''listing'', 3600), (CACHE_KEYS_PROPERTIES, ''list'', 3600)],
      faults = []\<rparr>
   = (Inr (), \<lparr>entries = [(CACHE_KEYS_PROPERTY ''PROP1234'', ''listing'', 3600)], faults = []\<rparr>)"
  by (simp add: CacheService_delByPattern_def try_catch_def await_def ret_def
      redis_del_def redis_keys_def command_def CACHE_KEYS_PROPERTY_def CACHE_KEYS_PROPERTIES_def)


theorem single_listing_key_outside_collection_pattern_witness:
  "\<not> glob_match ''properties:*'' (CACHE_KEYS_PROPERTY ''P1'') \<and>
   succeeding 1 (warm_cache []) \<and>
   CacheService_del (CACHE_KEYS_PROPERTY ''P1'') (warm_cache [])
     = (Inr (), \<lparr>entries = [(''properties:all'', ''old list'', 3600), (''search:{}'', ''old page'', 3600)],
                 faults = []\<rparr>)"
  using single_listing_key_outside_collection_pattern [of "''P1''" "warm_cache []"]
  by (simp add: succeeding_def warm_cache_def CacheService_del_def try_catch_def await_def ret_def
      redis_del_def command_def CACHE_KEYS_PROPERTY_def)


section \<open>Adding a favourite twice\<close>

text \<open>
  Claim C10. For an authenticated user whose document exists and a property that exists,
  if the property's identifier is already among the user's favourites, adding it answers
  400 with the message ``Property already in favorites'' and returns the cache and the
  entity store exactly as they were: the stored favourites and every cache entry are
  unchanged, and no cache command is issued.
\<close>

theorem addFavorite_duplicate:
  assumes "user = Some uid"
    and "Property_findOne ident (db w) = Some p"
    and "User_findById uid (db w) = Some u"
    and "propertyId p \<in> set (favorites u)"
  shows "addFavorite user ident w =
           (Inr \<lparr>status = 400, body = message ''Property already in favorites''\<rparr>, w)"
  using assms
  by (simp add: addFavorite_def try_catch_def await_def ret_def reply_def read_db_def)

theorem addFavorite_duplicate_witness:
  "Property_findOne ''P1'' example_db = Some (listing ''P1'' (Some ''u1'') 100 [''pool'', ''gym'']) \<and>
   favorites (the (User_findById ''u1'' example_db)) = [''P1''] \<and>
   addFavorite (Some ''u1'') ''P1'' \<lparr>cache = warm_cache [True], db = example_db\<rparr> =
     (Inr \<lparr>status = 400, body = message ''Property already in favorites''\<rparr>,
      \<lparr>cache = warm_cache [True], db = example_db\<rparr>)"
proof -
  have p: "Property_findOne ''P1'' (db \<lparr>cache = warm_cache [True], db = example_db\<rparr>)
      = Some (listing ''P1'' (Some ''u1'') 100 [''pool'', ''gym''])"
    by (simp add: Property_findOne_def example_db_def listing_def)
  have u: "User_findById ''u1'' (db \<lparr>cache = warm_cache [True], db = example_db\<rparr>)
      = Some \<lparr>user_id = ''u1'', email = ''u1@example.org'', password = ''hash'',
                favorites = [''P1''], recommendationsReceived = []\<rparr>"
    by (simp add: User_findById_def example_db_def)
  have m: "propertyId (listing ''P1'' (Some ''u1'') 100 [''pool'', ''gym''])
      \<in> set (favorites \<lparr>user_id = ''u1'', email = ''u1@example.org'', password = ''hash'',
                favorites = [''P1''], recommendationsReceived = []\<rparr>)"
    by (simp add: listing_def)
  show ?thesis
    using addFavorite_duplicate [OF refl p u m] p u by simp
qed

section \<open>Lookups of a listing that does not exist\<close>

lemma map_JStr_inject: "map JStr xs = map JStr ys \<Longrightarrow> xs = ys"
  by (simp add: inj_def)

lemma doc_fields_inject:
  assumes "doc_fields p = doc_fields p'"
  shows "p = p'"
proof -
  have a: "map JStr (amenities p) = map JStr (amenities p')"
    and t: "map JStr (tags p) = map JStr (tags p')"
    and c: "(case createdBy p of None \<Rightarrow> JNull | Some u \<Rightarrow> JStr u) =
            (case createdBy p' of None \<Rightarrow> JNull | Some u \<Rightarrow> JStr u)"
    and r: "propertyId p = propertyId p'" "title p = title p'" "type p = type p'" "price p = price p'"
      "state p = state p'" "city p = city p'" "areaSqFt p = areaSqFt p'" "bedrooms p = bedrooms p'"
      "bathrooms p = bathrooms p'" "furnished p = furnished p'" "availableFrom p = availableFrom p'"
      "listedBy p = listedBy p'" "colorTheme p = colorTheme p'" "rating p = rating p'"
      "isVerified p = isVerified p'" "listingType p = listingType p'"
    using assms by (simp_all add: doc_fields_def)
  have c': "createdBy p = createdBy p'"
    using c by (cases "createdBy p"; cases "createdBy p'") simp_all
  show ?thesis
    using r c' map_JStr_inject [OF a] map_JStr_inject [OF t] by (simp add: property.equality)
qed

lemma property_json_inject: "property_json p = property_json p' \<Longrightarrow> p = p'"
  by (simp add: property_json_def doc_fields_inject)

lemma getPropertyById_no_entity:
  assumes "Property_findOne ident (db w) = None"
  shows "\<exists>x r'. CacheService_get h (CACHE_KEYS_PROPERTY ident) (cache w) = (Inr x, r') \<and>
           entries r' = entries (cache w) \<and>
           getPropertyById h ident w =
             (Inr (if truthy x then \<lparr>status = 200, body = x\<rparr>
                   else \<lparr>status = 404, body = message ''Property not found''\<rparr>),
              w\<lparr>cache := r'\<rparr>)"
proof -
  obtain x r' where g: "CacheService_get h (CACHE_KEYS_PROPERTY ident) (cache w) = (Inr x, r')"
    and e: "entries r' = entries (cache w)"
    using CacheService_get_total [of h "CACHE_KEYS_PROPERTY ident" "cache w"] by blast
  have "getPropertyById h ident w =
      (Inr (if truthy x then \<lparr>status = 200, body = x\<rparr>
            else \<lparr>status = 404, body = message ''Property not found''\<rparr>), w\<lparr>cache := r'\<rparr>)"
    using g assms
    by (simp add: getPropertyById_def try_catch_def await_def ret_def reply_def on_cache_def read_db_def Let_def)
  then show ?thesis using g e by blast
qed

lemma getPropertyById_miss_found:
  assumes "map_of (entries (cache w)) (CACHE_KEYS_PROPERTY ident) = None"
    and "Property_findOne ident (db w) = Some p"
  shows "\<exists>w'. getPropertyById h ident w = (Inr \<lparr>status = 200, body = property_json p\<rparr>, w') \<and> db w' = db w"
proof -
  obtain r1 where g: "CacheService_get h (CACHE_KEYS_PROPERTY ident) (cache w) = (Inr JNull, r1)"
    using CacheService_get_absent [OF assms(1)] by blast
  obtain r2 where s: "CacheService_set h (CACHE_KEYS_PROPERTY ident) (property_json p) CACHE_TTL r1 = (Inr (), r2)"
    using CacheService_set_total by blast
  have "getPropertyById h ident w = (Inr \<lparr>status = 200, body = property_json p\<rparr>, w\<lparr>cache := r2\<rparr>)"
    using g s assms(2)
    by (simp add: getPropertyById_def try_catch_def await_def ret_def reply_def on_cache_def
        read_db_def truthy_def Let_def)
  then show ?thesis by simp
qed

lemma createProperty_201:
  assumes "createProperty h user reqBody w = (Inr resp, w')" and "status resp = 201"
  shows "\<exists>p r1 r2. body resp = property_json p \<and>
           Property_findOne (propertyId p) (db w) = None \<and>
           db w' = (db w)\<lparr>Property := Property (db w) @ [p]\<rparr> \<and>
           CacheService_delByPattern ''properties:*'' (cache w) = (Inr (), r1) \<and>
           CacheService_delByPattern ''search:*'' r1 = (Inr (), r2) \<and> cache w' = r2"
proof -
  obtain r1 where d1: "CacheService_delByPattern ''properties:*'' (cache w) = (Inr (), r1)"
    using CacheService_delByPattern_total by blast
  obtain r2 where d2: "CacheService_delByPattern ''search:*'' r1 = (Inr (), r2)"
    using CacheService_delByPattern_total by blast
  have "\<exists>p. body resp = property_json p \<and>
           Property_findOne (propertyId p) (db w) = None \<and>
           db w' = (db w)\<lparr>Property := Property (db w) @ [p]\<rparr> \<and> cache w' = r2"
    using assms d1 d2
    by (auto simp: createProperty_def try_catch_def await_def ret_def throw_def evaluate_def reply_def
        on_cache_def on_db_def Property_create_def
        split: option.splits if_splits sum.splits prod.splits)
  then show ?thesis using d1 d2 by blast
qed

lemma find_append_new:
  "find P xs = None \<Longrightarrow> P y \<Longrightarrow> find P (xs @ [y]) = Some y"
  by (induction xs) (auto split: if_splits)


text \<open>
  Claim C3, as the accessor implements it. A lookup of an identifier with no matching
  entity never writes to the cache: its entries and the store are as before. If moreover
  nothing is cached under the listing's key, the lookup answers 404, and once a create
  has answered 201 with a document of that identifier, the very next lookup answers 200
  with that document.
\<close>

theorem not_found_is_not_cached:
  assumes "Property_findOne ident (db w) = None"
    and "getPropertyById h ident w = (res, w1)"
  shows "entries (cache w1) = entries (cache w) \<and> db w1 = db w \<and>
         (map_of (entries (cache w)) (CACHE_KEYS_PROPERTY ident) = None \<longrightarrow>
            res = Inr \<lparr>status = 404, body = message ''Property not found''\<rparr> \<and>
            (\<forall>user reqBody p w2.
               createProperty h user reqBody w1 = (Inr \<lparr>status = 201, body = property_json p\<rparr>, w2) \<and>
               propertyId p = ident \<longrightarrow>
               (\<exists>w3. getPropertyById h ident w2 = (Inr \<lparr>status = 200, body = property_json p\<rparr>, w3))))"
proof -
  obtain x r' where g: "CacheService_get h (CACHE_KEYS_PROPERTY ident) (cache w) = (Inr x, r')"
    and e: "entries r' = entries (cache w)"
    and run: "getPropertyById h ident w =
             (Inr (if truthy x then \<lparr>status = 200, body = x\<rparr>
                   else \<lparr>status = 404, body = message ''Property not found''\<rparr>),
              w\<lparr>cache := r'\<rparr>)"
    using getPropertyById_no_entity [OF assms(1)] by blast
  have w1: "w1 = w\<lparr>cache := r'\<rparr>" and res: "res = Inr (if truthy x then \<lparr>status = 200, body = x\<rparr>
                   else \<lparr>status = 404, body = message ''Property not found''\<rparr>)"
    using run assms(2) by simp_all
  have first: "entries (cache w1) = entries (cache w) \<and> db w1 = db w"
    using w1 e by simp
  have second: "res = Inr \<lparr>status = 404, body = message ''Property not found''\<rparr> \<and>
            (\<forall>user reqBody p w2.
               createProperty h user reqBody w1 = (Inr \<lparr>status = 201, body = property_json p\<rparr>, w2) \<and>
               propertyId p = ident \<longrightarrow>
               (\<exists>w3. getPropertyById h ident w2 = (Inr \<lparr>status = 200, body = property_json p\<rparr>, w3)))"
    if absent: "map_of (entries (cache w)) (CACHE_KEYS_PROPERTY ident) = None"
  proof -
    obtain r0 where "CacheService_get h (CACHE_KEYS_PROPERTY ident) (cache w) = (Inr JNull, r0)"
      using CacheService_get_absent [OF absent] by blast
    then have "x = JNull" using g by simp
    then have r404: "res = Inr \<lparr>status = 404, body = message ''Property not found''\<rparr>"
      using res by (simp add: truthy_def)
    have later: "\<exists>w3. getPropertyById h ident w2 = (Inr \<lparr>status = 200, body = property_json p\<rparr>, w3)"
      if c: "createProperty h user reqBody w1 = (Inr \<lparr>status = 201, body = property_json p\<rparr>, w2)"
        and i: "propertyId p = ident" for user reqBody p w2
    proof -
      obtain p' r1 r2 where b: "property_json p = property_json p'"
        and d: "db w2 = (db w1)\<lparr>Property := Property (db w1) @ [p']\<rparr>"
        and k1: "CacheService_delByPattern ''properties:*'' (cache w1) = (Inr (), r1)"
        and k2: "CacheService_delByPattern ''search:*'' r1 = (Inr (), r2)"
        and c2: "cache w2 = r2"
        using createProperty_201 [OF c] by auto
      have pp: "p' = p" using b property_json_inject by metis
      have m1: "map_of (entries r1) (CACHE_KEYS_PROPERTY ident) = map_of (entries (cache w1)) (CACHE_KEYS_PROPERTY ident)"
        using CacheService_delByPattern_keeps [OF property_key_not_swept(1) [of ident], of "cache w1"] k1 by auto
      have m2: "map_of (entries r2) (CACHE_KEYS_PROPERTY ident) = map_of (entries r1) (CACHE_KEYS_PROPERTY ident)"
        using CacheService_delByPattern_keeps [OF property_key_not_swept(2) [of ident], of r1] k2 by auto
      have a2: "map_of (entries (cache w2)) (CACHE_KEYS_PROPERTY ident) = None"
        using m1 m2 c2 first absent by simp
      have "find (\<lambda>q. propertyId q = ident) (Property (db w)) = None"
        using assms(1) by (simp add: Property_findOne_def)
      then have f2: "Property_findOne ident (db w2) = Some p"
        using d pp i first by (simp add: Property_findOne_def find_append_new)
      show ?thesis using getPropertyById_miss_found [OF a2 f2] by blast
    qed
    show ?thesis using r404 later by blast
  qed
  show ?thesis using first second by blast
qed

text \<open>
  Without the proviso the claim fails. A listing is read (and cached), then deleted while
  the three invalidation commands fail; the store no longer has it, yet the lookup answers
  200 with the cached value, and it still does so after the listing is created anew.
\<close>

theorem stale_entry_masks_missing_listing:
  "deleteProperty example_host (Some ''u1'') ''P1''
     (snd (getPropertyById example_host ''P1''
        \<lparr>cache = \<lparr>entries = [], faults = [False, False, True, True, True]\<rparr>, db = example_db\<rparr>))
   = (Inr \<lparr>status = 200, body = message ''Property deleted''\<rparr>,
      \<lparr>cache = \<lparr>entries = [(''property:P1'', ''cached'', 3600)], faults = []\<rparr>,
       db = example_db\<lparr>Property := [listing ''P2'' (Some ''u2'') 200 [''pool'']]\<rparr>\<rparr>) \<and>
   Property_findOne ''P1'' (example_db\<lparr>Property := [listing ''P2'' (Some ''u2'') 200 [''pool'']]\<rparr>) = None \<and>
   fst (getPropertyById example_host ''P1''
     \<lparr>cache = \<lparr>entries = [(''property:P1'', ''cached'', 3600)], faults = []\<rparr>,
      db = example_db\<lparr>Property := [listing ''P2'' (Some ''u2'') 200 [''pool'']]\<rparr>\<rparr>)
   = Inr \<lparr>status = 200, body = JStr ''cached''\<rparr> \<and>
   fst (getPropertyById example_host ''P1''
     (snd (createProperty example_host (Some ''u1'') [(''propertyId'', JStr ''P1'')]
       \<lparr>cache = \<lparr>entries = [(''property:P1'', ''cached'', 3600)], faults = []\<rparr>,
        db = example_db\<lparr>Property := [listing ''P2'' (Some ''u2'') 200 [''pool'']]\<rparr>\<rparr>)))
   = Inr \<lparr>status = 200, body = JStr ''cached''\<rparr>"
  by (simp add: run_defs)


theorem not_found_is_not_cached_witness:
  "Property_findOne ''P9'' example_db = None \<and>
   getPropertyById example_host ''P9'' \<lparr>cache = warm_cache [], db = example_db\<rparr>
     = (Inr \<lparr>status = 404, body = message ''Property not found''\<rparr>,
        \<lparr>cache = warm_cache [], db = example_db\<rparr>) \<and>
   createProperty example_host (Some ''u1'') [(''propertyId'', JStr ''P9'')]
        \<lparr>cache = warm_cache [], db = example_db\<rparr>
     = (Inr \<lparr>status = 201, body = property_json (listing ''P9'' (Some ''u1'') 100 [])\<rparr>,
        \<lparr>cache = \<lparr>entries = [(''property:P1'', ''old P1'', 3600)], faults = []\<rparr>,
         db = example_db\<lparr>Property := Property example_db @ [listing ''P9'' (Some ''u1'') 100 []]\<rparr>\<rparr>) \<and>
   fst (getPropertyById example_host ''P9''
        \<lparr>cache = \<lparr>entries = [(''property:P1'', ''old P1'', 3600)], faults = []\<rparr>,
         db = example_db\<lparr>Property := Property example_db @ [listing ''P9'' (Some ''u1'') 100 []]\<rparr>\<rparr>)
     = Inr \<lparr>status = 200, body = property_json (listing ''P9'' (Some ''u1'') 100 [])\<rparr>"
proof -
  have nf: "Property_findOne ''P9'' (db \<lparr>cache = warm_cache [], db = example_db\<rparr>) = None"
    by (simp add: Property_findOne_def example_db_def listing_def)
  have run: "getPropertyById example_host ''P9'' \<lparr>cache = warm_cache [], db = example_db\<rparr>
     = (Inr \<lparr>status = 404, body = message ''Property not found''\<rparr>,
        \<lparr>cache = warm_cache [], db = example_db\<rparr>)"
    by (simp add: run_defs)
  have mk: "createProperty example_host (Some ''u1'') [(''propertyId'', JStr ''P9'')]
        \<lparr>cache = warm_cache [], db = example_db\<rparr>
     = (Inr \<lparr>status = 201, body = property_json (listing ''P9'' (Some ''u1'') 100 [])\<rparr>,
        \<lparr>cache = \<lparr>entries = [(''property:P1'', ''old P1'', 3600)], faults = []\<rparr>,
         db = example_db\<lparr>Property := Property example_db @ [listing ''P9'' (Some ''u1'') 100 []]\<rparr>\<rparr>)"
    by (simp add: run_defs)
  have ab: "map_of (entries (cache \<lparr>cache = warm_cache [], db = example_db\<rparr>)) (CACHE_KEYS_PROPERTY ''P9'') = None"
    by (simp add: warm_cache_def CACHE_KEYS_PROPERTY_def)
  have id: "propertyId (listing ''P9'' (Some ''u1'') 100 []) = ''P9''"
    by (simp add: listing_def)
  from not_found_is_not_cached [OF nf run, of ] ab mk id
  have "\<exists>w3. getPropertyById example_host ''P9''
        \<lparr>cache = \<lparr>entries = [(''property:P1'', ''old P1'', 3600)], faults = []\<rparr>,
         db = example_db\<lparr>Property := Property example_db @ [listing ''P9'' (Some ''u1'') 100 []]\<rparr>\<rparr>
     = (Inr \<lparr>status = 200, body = property_json (listing ''P9'' (Some ''u1'') 100 [])\<rparr>, w3)"
    by blast
  then show ?thesis using nf run mk by auto
qed

section \<open>Set-membership constraints of a search\<close>










section \<open>Pagination of a search\<close>

















section \<open>Defaults of page and limit\<close>






section \<open>Constraint values that do not parse\<close>
















section \<open>The key of a search result\<close>



















end
